theory Spec2Isabelle
  imports Complex_Main "HOL-Library.Multiset"
begin

section \<open>The reward and feedback engine of \<open>marble/feedback/feedback_provider.py\<close>\<close>

text \<open>
  Modelling conventions.
  \<^item> A Python \<open>float\<close> is modelled by the real number it denotes and arithmetic on it is
    exact; a Python \<open>int\<close> is an \<open>int\<close>. The rounding of binary64, its range (a quotient of
    two integers beyond it raises \<open>OverflowError\<close>), infinities and NaN are outside this
    model: an equation between rewards or scores below is an equation between real numbers.
  \<^item> A dictionary whose iteration order is observed (\<open>agent_kpis\<close>, \<open>agent_profiles\<close>) is
    an association list in insertion order; a Python dictionary has pairwise different
    keys, which is the predicate \<open>distinct (map fst d)\<close>. The stored \<open>agent_rewards\<close>
    is only looked up and compared, and is a map.
  \<^item> \<open>evaluator.metrics\<close> is read with \<open>.get(key, default)\<close> throughout, so each of its four
    keys may be absent: every field of the record is an \<open>option\<close>.
  \<^item> Every operation of the source that can raise (true division, indexing, subscripting a
    dictionary) returns a value of \<open>py_error + 'a\<close>, and the functions calling it
    propagate \<open>Inl\<close>. Logging is left out.
\<close>

subsection \<open>Python primitives\<close>

datatype py_error = ZeroDivisionError | IndexError | KeyError

definition bind_err :: "py_error + 'a \<Rightarrow> ('a \<Rightarrow> py_error + 'b) \<Rightarrow> py_error + 'b" where
  "bind_err r f = (case r of Inl e \<Rightarrow> Inl e | Inr v \<Rightarrow> f v)"

text \<open>\<open>d.get(k, dflt)\<close>, \<open>d[k]\<close> and \<open>k in d\<close> on an insertion-ordered dictionary.\<close>

definition dict_get :: "('k \<times> 'v) list \<Rightarrow> 'k \<Rightarrow> 'v \<Rightarrow> 'v" where
  "dict_get d k dflt = (case map_of d k of None \<Rightarrow> dflt | Some v \<Rightarrow> v)"

definition dict_getitem :: "('k \<times> 'v) list \<Rightarrow> 'k \<Rightarrow> py_error + 'v" where
  "dict_getitem d k = (case map_of d k of None \<Rightarrow> Inl KeyError | Some v \<Rightarrow> Inr v)"

definition dict_contains :: "('k \<times> 'v) list \<Rightarrow> 'k \<Rightarrow> bool" where
  "dict_contains d k = (k \<in> set (map fst d))"

text \<open>\<open>d[k] = v\<close>: an existing key keeps its position, a new key goes to the end.\<close>

definition dict_set :: "('k \<times> 'v) list \<Rightarrow> 'k \<Rightarrow> 'v \<Rightarrow> ('k \<times> 'v) list" where
  "dict_set d k v =
     (if dict_contains d k then map (\<lambda>(k', v'). if k' = k then (k', v) else (k', v')) d
      else d @ [(k, v)])"

text \<open>\<open>a / b\<close> on two integers: true division, \<open>ZeroDivisionError\<close> when \<open>b\<close> is zero.\<close>

definition py_truediv :: "int \<Rightarrow> int \<Rightarrow> py_error + real" where
  "py_truediv a b = (if b = 0 then Inl ZeroDivisionError else Inr (real_of_int a / real_of_int b))"

text \<open>\<open>xs[-1]\<close>: \<open>IndexError\<close> on the empty list.\<close>

definition py_last :: "'a list \<Rightarrow> py_error + 'a" where
  "py_last xs = (if xs = [] then Inl IndexError else Inr (last xs))"

text \<open>\<open>min(a, b)\<close> and \<open>max(a, b)\<close> return the first argument unless the second is strictly
  smaller (larger).\<close>

definition py_min :: "real \<Rightarrow> real \<Rightarrow> real" where
  "py_min a b = (if b < a then b else a)"

definition py_max :: "real \<Rightarrow> real \<Rightarrow> real" where
  "py_max a b = (if a < b then b else a)"

text \<open>\<open>sorted(xs, key=f, reverse=True)\<close>: the list is reversed, sorted stably in ascending
  order of the key, and reversed again, so that elements with equal keys keep their order.\<close>

definition py_sorted_reverse :: "('a \<Rightarrow> real) \<Rightarrow> 'a list \<Rightarrow> 'a list" where
  "py_sorted_reverse f xs = rev (sort_key f (rev xs))"

subsection \<open>Configuration and data\<close>

definition REWARD_WEIGHTS :: "(string \<times> real) list" where
  "REWARD_WEIGHTS = [(''planning'', 4 / 10), (''communication'', 3 / 10), (''contribution'', 3 / 10)]"

record metrics =
  agent_kpis :: "(string \<times> int) list option"
  total_milestones :: "int option"
  planning_score :: "real list option"
  communication_score :: "real list option"

text \<open>The fields of \<open>FeedbackProvider\<close> that the reward engine reads or writes;
  \<open>evaluator_metrics\<close> is \<open>self.evaluator.metrics\<close>.\<close>

record feedback_provider =
  task :: string
  agent_profiles :: "(string \<times> string) list"
  evaluator_metrics :: metrics
  agent_rewards :: "string \<rightharpoonup> real"

text \<open>\<open>__init__\<close>: the reward store starts empty. (Loading the prompt file is input/output
  and is not modelled.)\<close>

definition init_provider :: "string \<Rightarrow> (string \<times> string) list \<Rightarrow> metrics \<Rightarrow> feedback_provider" where
  "init_provider t profiles m =
     \<lparr>task = t, agent_profiles = profiles, evaluator_metrics = m, agent_rewards = Map.empty\<rparr>"

text \<open>\<open>metrics.get("agent_kpis", {})\<close>, as each of the three methods below reads it.\<close>

definition get_agent_kpis :: "metrics \<Rightarrow> (string \<times> int) list" where
  "get_agent_kpis m = (case agent_kpis m of None \<Rightarrow> [] | Some d \<Rightarrow> d)"

subsection \<open>\<open>_calculate_agent_contribution_ratio\<close>\<close>

definition calculate_agent_contribution_ratio :: "metrics \<Rightarrow> string \<Rightarrow> py_error + real" where
  "calculate_agent_contribution_ratio m agent_id =
     (let kpis = get_agent_kpis m;
          agent_milestones = dict_get kpis agent_id 0;
          team_total = (case total_milestones m of None \<Rightarrow> agent_milestones | Some t \<Rightarrow> t)
      in if team_total > 0 then py_truediv agent_milestones team_total else Inr 0)"

subsection \<open>\<open>_get_latest_scores\<close>\<close>

text \<open>\<open>metrics.get("planning_score", [])\<close> and \<open>metrics.get("communication_score", [])\<close>.\<close>

definition get_planning_scores :: "metrics \<Rightarrow> real list" where
  "get_planning_scores m = (case planning_score m of None \<Rightarrow> [] | Some xs \<Rightarrow> xs)"

definition get_communication_scores :: "metrics \<Rightarrow> real list" where
  "get_communication_scores m = (case communication_score m of None \<Rightarrow> [] | Some xs \<Rightarrow> xs)"

definition get_latest_scores :: "metrics \<Rightarrow> py_error + (real \<times> real)" where
  "get_latest_scores m =
     (let planning_scores = get_planning_scores m;
          communication_scores = get_communication_scores m
      in bind_err (if planning_scores \<noteq> [] then py_last planning_scores else Inr 3)
           (\<lambda>latest_planning.
         bind_err (if communication_scores \<noteq> [] then py_last communication_scores else Inr 3)
           (\<lambda>latest_communication.
         Inr (if latest_planning = - 1 then 0 else latest_planning,
              if latest_communication = - 1 then 0 else latest_communication))))"

subsection \<open>\<open>calculate_agent_rewards\<close>\<close>

definition score_normalize_factor :: real where
  "score_normalize_factor = 1 / 5"

text \<open>Lines 122 to 133 of the loop body: the two normalised team scores, the weighted sum
  and the clipping to the unit interval.\<close>

definition normalized :: "real \<Rightarrow> real" where
  "normalized latest = latest * score_normalize_factor"

definition agent_reward :: "real \<Rightarrow> real \<Rightarrow> real \<Rightarrow> py_error + real" where
  "agent_reward latest_planning latest_communication contribution_ratio =
     bind_err (dict_getitem REWARD_WEIGHTS ''planning'') (\<lambda>wp.
     bind_err (dict_getitem REWARD_WEIGHTS ''communication'') (\<lambda>wc.
     bind_err (dict_getitem REWARD_WEIGHTS ''contribution'') (\<lambda>wk.
     Inr (py_max 0 (py_min 1
       (wp * normalized latest_planning + wc * normalized latest_communication
          + wk * contribution_ratio))))))"

fun rewards_loop ::
  "metrics \<Rightarrow> (string \<times> int) list \<Rightarrow> real \<Rightarrow> real \<Rightarrow> string list \<Rightarrow> (string \<rightharpoonup> real)
     \<Rightarrow> py_error + (string \<rightharpoonup> real)" where
  "rewards_loop m kpis lp lc [] rw = Inr rw"
| "rewards_loop m kpis lp lc (agent_id # rest) rw =
     (case (if dict_contains kpis agent_id then calculate_agent_contribution_ratio m agent_id
            else Inr 0) of
        Inl e \<Rightarrow> Inl e
      | Inr contribution_ratio \<Rightarrow>
          (case agent_reward lp lc contribution_ratio of
             Inl e \<Rightarrow> Inl e
           | Inr r \<Rightarrow> rewards_loop m kpis lp lc rest (rw(agent_id \<mapsto> r))))"

text \<open>The method returns \<open>self.agent_rewards\<close>, the store it has just updated: the result
  is the returned mapping together with the provider after the call.\<close>

definition calculate_agent_rewards ::
  "feedback_provider \<Rightarrow> py_error + ((string \<rightharpoonup> real) \<times> feedback_provider)" where
  "calculate_agent_rewards p =
     bind_err (get_latest_scores (evaluator_metrics p)) (\<lambda>(latest_planning, latest_communication).
     (let kpis = get_agent_kpis (evaluator_metrics p)
      in bind_err (rewards_loop (evaluator_metrics p) kpis latest_planning latest_communication
                     (map fst (agent_profiles p)) (agent_rewards p))
           (\<lambda>rw. Inr (rw, p\<lparr>agent_rewards := rw\<rparr>))))"

subsection \<open>\<open>sorted_agent_contribution\<close>\<close>

text \<open>The dictionary comprehension over the keys of \<open>agent_kpis\<close>, then its \<open>items()\<close>
  sorted by ratio, largest first.\<close>

fun contribution_dict ::
  "metrics \<Rightarrow> string list \<Rightarrow> (string \<times> real) list \<Rightarrow> py_error + (string \<times> real) list" where
  "contribution_dict m [] acc = Inr acc"
| "contribution_dict m (agent_id # rest) acc =
     (case calculate_agent_contribution_ratio m agent_id of
        Inl e \<Rightarrow> Inl e
      | Inr ratio \<Rightarrow> contribution_dict m rest (dict_set acc agent_id ratio))"

definition sorted_agent_contribution :: "feedback_provider \<Rightarrow> py_error + (string \<times> real) list" where
  "sorted_agent_contribution p =
     (let kpis = get_agent_kpis (evaluator_metrics p)
      in bind_err (contribution_dict (evaluator_metrics p) (map fst kpis) [])
           (\<lambda>agent_contribution. Inr (py_sorted_reverse snd agent_contribution)))"

subsection \<open>\<open>generate_reward_explanation\<close>\<close>

text \<open>
  The prompt template is read from \<open>marble/feedback/feedback_prompts.json\<close>, which is not
  part of the sources, and the completion comes from an external service. Both are
  parameters: \<open>fill_prompt\<close> is the subscripting and formatting of the template (it can
  raise, outside the \<open>try\<close>), and \<open>llm\<close> is the call inside the \<open>try\<close>, giving the
  content of the first message (\<open>Inr\<close>) or the text of the exception caught (\<open>Inl\<close>).
\<close>

definition fullwidth_colon :: string where
  "fullwidth_colon = [CHR 0xEF, CHR 0xBC, CHR 0x9A]"

definition no_data_message :: "string \<Rightarrow> string" where
  "no_data_message agent_id = ''Agent '' @ agent_id @ '' No or valid data''"

definition generate_reward_explanation ::
  "(real \<Rightarrow> real \<Rightarrow> real \<Rightarrow> real \<Rightarrow> py_error + string) \<Rightarrow> (string \<Rightarrow> string + string)
     \<Rightarrow> feedback_provider \<Rightarrow> string \<Rightarrow> py_error + (string \<times> feedback_provider)" where
  "generate_reward_explanation fill_prompt llm p agent_id =
     bind_err (if agent_id \<notin> dom (agent_rewards p)
               then bind_err (calculate_agent_rewards p) (\<lambda>(rw, p'). Inr p')
               else Inr p) (\<lambda>p1.
     if agent_id \<notin> dom (agent_rewards p1) then Inr (no_data_message agent_id, p1)
     else
       bind_err (get_latest_scores (evaluator_metrics p1)) (\<lambda>(latest_planning, latest_communication).
       bind_err (case agent_rewards p1 agent_id of None \<Rightarrow> Inl KeyError | Some r \<Rightarrow> Inr r) (\<lambda>reward.
       bind_err (calculate_agent_contribution_ratio (evaluator_metrics p1) agent_id) (\<lambda>contribution_ratio.
       bind_err (fill_prompt latest_planning latest_communication contribution_ratio reward) (\<lambda>filled_prompt.
       (case llm filled_prompt of
          Inr content \<Rightarrow> Inr (content, p1)
        | Inl msg \<Rightarrow> Inr (''Reward explanation generation failed'' @ fullwidth_colon @ msg, p1)))))))"

subsection \<open>The specification's formulas\<close>

text \<open>The contracts of the specification, written from its words, against which the
  functions above are compared: the contribution ratio for a given team total, the latest
  raw score of a sequence, and the clamped weighted reward.\<close>

definition spec_contribution_ratio :: "(string \<times> int) list \<Rightarrow> int \<Rightarrow> string \<Rightarrow> real" where
  "spec_contribution_ratio agent_milestones team_total agent_id =
     (if team_total > 0
      then real_of_int (dict_get agent_milestones agent_id 0) / real_of_int team_total
      else 0)"

definition spec_latest_raw :: "real list \<Rightarrow> real" where
  "spec_latest_raw scores =
     (if scores = [] then 3 else if last scores = - 1 then 0 else last scores)"

definition spec_reward :: "real \<Rightarrow> real \<Rightarrow> real \<Rightarrow> real" where
  "spec_reward normalized_planning normalized_communication contribution_ratio =
     max 0 (min 1 (4 / 10 * normalized_planning + 3 / 10 * normalized_communication
                     + 3 / 10 * contribution_ratio))"

text \<open>The denominator \<open>_calculate_agent_contribution_ratio\<close> uses for an agent: the
  snapshot's \<open>total_milestones\<close>, or the agent's own count when the key is absent; and the
  ratio it then returns.\<close>

definition effective_total :: "metrics \<Rightarrow> string \<Rightarrow> int" where
  "effective_total m agent_id =
     (case total_milestones m of None \<Rightarrow> dict_get (get_agent_kpis m) agent_id 0 | Some t \<Rightarrow> t)"

definition ratio_value :: "metrics \<Rightarrow> string \<Rightarrow> real" where
  "ratio_value m agent_id =
     spec_contribution_ratio (get_agent_kpis m) (effective_total m agent_id) agent_id"

text \<open>The store after the loop of \<open>calculate_agent_rewards\<close>: every roster agent has the
  reward of this cycle, every other entry is as before.\<close>

definition updated_store :: "feedback_provider \<Rightarrow> (string \<rightharpoonup> real)" where
  "updated_store p =
     (\<lambda>a. if a \<in> set (map fst (agent_profiles p))
          then Some (spec_reward
            (normalized (spec_latest_raw (get_planning_scores (evaluator_metrics p))))
            (normalized (spec_latest_raw (get_communication_scores (evaluator_metrics p))))
            (ratio_value (evaluator_metrics p) a))
          else agent_rewards p a)"

text \<open>The two invariants of the reward store: it holds entries for roster agents only,
  and each stored reward lies in the unit interval.\<close>

definition store_within_roster :: "feedback_provider \<Rightarrow> bool" where
  "store_within_roster p = (dom (agent_rewards p) \<subseteq> set (map fst (agent_profiles p)))"

definition rewards_in_range :: "(string \<rightharpoonup> real) \<Rightarrow> bool" where
  "rewards_in_range rw = (\<forall>a v. rw a = Some v \<longrightarrow> 0 \<le> v \<and> v \<le> 1)"

subsection \<open>Example snapshots and rosters\<close>

text \<open>The concrete scenario of the specification (two agents, four milestones, a planning
  score of 4.0 and the sentinel as communication score), and variations of it on which
  the theorems below are evaluated.\<close>

definition example_metrics :: metrics where
  "example_metrics =
     \<lparr>agent_kpis = Some [(''A'', 3), (''B'', 1)], total_milestones = Some 4,
      planning_score = Some [4], communication_score = Some [- 1]\<rparr>"

definition example_profiles :: "(string \<times> string) list" where
  "example_profiles = [(''A'', ''planner''), (''B'', ''engineer'')]"



definition example_metrics_no_total :: metrics where
  "example_metrics_no_total =
     \<lparr>agent_kpis = Some [(''A'', 3), (''B'', 1), (''C'', 0)], total_milestones = None,
      planning_score = Some [4], communication_score = Some [- 1]\<rparr>"

definition example_metrics_negative_total :: metrics where
  "example_metrics_negative_total =
     \<lparr>agent_kpis = Some [(''A'', 3), (''B'', 1)], total_milestones = Some (- 4),
      planning_score = Some [4], communication_score = Some [- 1]\<rparr>"

definition example_metrics_extreme :: metrics where
  "example_metrics_extreme =
     \<lparr>agent_kpis = Some [(''A'', 9), (''B'', - 70)], total_milestones = Some 2,
      planning_score = Some [100], communication_score = Some [- 50]\<rparr>"


section \<open>Auxiliary facts\<close>

lemma bind_err_Inr [simp]: "bind_err (Inr v) f = f v"
  by (simp add: bind_err_def)

lemma bind_err_Inl [simp]: "bind_err (Inl e) f = Inl e"
  by (simp add: bind_err_def)

lemma contribution_ratio_value:
  "calculate_agent_contribution_ratio m a = Inr (ratio_value m a)"
  by (simp add: calculate_agent_contribution_ratio_def ratio_value_def effective_total_def
      spec_contribution_ratio_def py_truediv_def Let_def split: option.splits)

lemma dict_get_absent [simp]: "\<not> dict_contains d k \<Longrightarrow> dict_get d k dflt = dflt"
proof -
  assume "\<not> dict_contains d k"
  then have "map_of d k = None"
    by (simp add: dict_contains_def map_of_eq_None_iff)
  then show ?thesis
    by (simp add: dict_get_def)
qed

lemma ratio_value_absent: "\<not> dict_contains (get_agent_kpis m) a \<Longrightarrow> ratio_value m a = 0"
  by (simp add: ratio_value_def spec_contribution_ratio_def)

lemma latest_scores_value:
  "get_latest_scores m =
     Inr (spec_latest_raw (get_planning_scores m), spec_latest_raw (get_communication_scores m))"
  by (simp add: get_latest_scores_def spec_latest_raw_def py_last_def Let_def)

lemma py_clamp: "py_max 0 (py_min 1 x) = max 0 (min 1 x)"
  by (simp add: py_max_def py_min_def max_def min_def)

lemma agent_reward_value:
  "agent_reward lp lc cr = Inr (spec_reward (normalized lp) (normalized lc) cr)"
  by (simp add: agent_reward_def REWARD_WEIGHTS_def dict_getitem_def spec_reward_def py_clamp)

lemma spec_reward_range: "0 \<le> spec_reward a b c \<and> spec_reward a b c \<le> 1"
  by (simp add: spec_reward_def)

lemma rewards_loop_value:
  "rewards_loop m (get_agent_kpis m) lp lc as rw =
     Inr (\<lambda>a. if a \<in> set as
               then Some (spec_reward (normalized lp) (normalized lc) (ratio_value m a))
               else rw a)"
proof (induction as arbitrary: rw)
  case Nil
  show ?case by simp
next
  case (Cons x xs)
  have "(if dict_contains (get_agent_kpis m) x then calculate_agent_contribution_ratio m x
         else Inr 0) = Inr (ratio_value m x)"
    by (simp add: contribution_ratio_value ratio_value_absent)
  then show ?case
    by (auto simp: agent_reward_value Cons.IH)
qed

lemma calculate_agent_rewards_value:
  "calculate_agent_rewards p = Inr (updated_store p, p\<lparr>agent_rewards := updated_store p\<rparr>)"
  by (simp add: calculate_agent_rewards_def latest_scores_value rewards_loop_value updated_store_def)

lemma dom_updated_store:
  "dom (updated_store p) = dom (agent_rewards p) \<union> set (map fst (agent_profiles p))"
proof -
  have "a \<in> dom (updated_store p) \<longleftrightarrow>
      a \<in> dom (agent_rewards p) \<union> set (map fst (agent_profiles p))" for a
    by (cases "a \<in> set (map fst (agent_profiles p))") (simp_all add: updated_store_def dom_def)
  then show ?thesis
    by blast
qed

lemma updated_store_twice: "updated_store (p\<lparr>agent_rewards := updated_store p\<rparr>) = updated_store p"
  by (rule ext) (simp add: updated_store_def)

lemma updated_store_in_range:
  "rewards_in_range (agent_rewards p) \<Longrightarrow> rewards_in_range (updated_store p)"
  by (auto simp: rewards_in_range_def updated_store_def spec_reward_range split: if_splits)

lemma init_rewards_in_range: "rewards_in_range (agent_rewards (init_provider t profiles m))"
  by (simp add: rewards_in_range_def init_provider_def)

lemma init_store_within_roster: "store_within_roster (init_provider t profiles m)"
  by (simp add: store_within_roster_def init_provider_def)

lemma calculate_keeps_store_within_roster:
  assumes "store_within_roster p" and "calculate_agent_rewards p = Inr (rw, p')"
  shows "store_within_roster p'"
proof -
  from assms(2) have "agent_rewards p' = updated_store p" and "agent_profiles p' = agent_profiles p"
    by (auto simp: calculate_agent_rewards_value)
  with assms(1) show ?thesis
    by (simp add: store_within_roster_def dom_updated_store)
qed


lemma dict_set_not_Nil: "dict_set d k v \<noteq> []"
  by (auto simp: dict_set_def dict_contains_def)


lemma contribution_dict_total:
  "\<exists>r. contribution_dict m keys acc = Inr r \<and> (r = [] \<longleftrightarrow> keys = [] \<and> acc = [])"
proof (induction keys arbitrary: acc)
  case Nil
  show ?case by simp
next
  case (Cons k ks)
  from Cons.IH [of "dict_set acc k (ratio_value m k)"] show ?case
    by (simp add: contribution_ratio_value dict_set_not_Nil)
qed

lemma sorted_agent_contribution_total: "\<exists>ranking. sorted_agent_contribution p = Inr ranking"
proof -
  obtain r where "contribution_dict (evaluator_metrics p)
      (map fst (get_agent_kpis (evaluator_metrics p))) [] = Inr r"
    using contribution_dict_total by blast
  then show ?thesis
    by (simp add: sorted_agent_contribution_def)
qed




lemma py_sorted_reverse_Nil: "py_sorted_reverse f xs = [] \<longleftrightarrow> xs = []"
proof -
  have "length (py_sorted_reverse f xs) = length xs"
    by (simp add: py_sorted_reverse_def)
  then show ?thesis
    by (metis length_0_conv)
qed

lemma explanation_provider:
  assumes "generate_reward_explanation fill_prompt llm p agent_id = Inr (text, p')"
  shows "p' = p \<or> p' = p\<lparr>agent_rewards := updated_store p\<rparr>"
proof (cases "agent_id \<in> dom (agent_rewards p)")
  case True
  with assms show ?thesis
    by (auto simp: generate_reward_explanation_def bind_err_def
        split: if_splits sum.splits option.splits prod.splits)
next
  case False
  with assms show ?thesis
    by (auto simp: generate_reward_explanation_def calculate_agent_rewards_value bind_err_def
        split: if_splits sum.splits option.splits prod.splits)
qed

lemma explanation_keeps_store_within_roster:
  assumes "store_within_roster p"
    and "generate_reward_explanation fill_prompt llm p agent_id = Inr (text, p')"
  shows "store_within_roster p'"
proof -
  from assms(1) have "store_within_roster (p\<lparr>agent_rewards := updated_store p\<rparr>)"
    by (simp add: store_within_roster_def dom_updated_store)
  with assms(1) explanation_provider [OF assms(2)] show ?thesis
    by auto
qed

section \<open>The claims\<close>



text \<open>
  Claim C9. When the snapshot has no \<open>total_milestones\<close> entry, the denominator is the
  queried agent's own milestone count: the ratio is \<open>1.0\<close> for an agent with a positive
  count and \<open>0.0\<close> for an agent with count \<open>0\<close> or with no entry. (In the example two agents
  with different counts both get \<open>1.0\<close>, which no team total gives.)
\<close>

theorem missing_total_ratio:
  "total_milestones m = None \<Longrightarrow>
     calculate_agent_contribution_ratio m a =
       (if dict_get (get_agent_kpis m) a 0 > 0
        then py_truediv (dict_get (get_agent_kpis m) a 0) (dict_get (get_agent_kpis m) a 0)
        else Inr 0)
     \<and> calculate_agent_contribution_ratio m a =
         Inr (if dict_get (get_agent_kpis m) a 0 > 0 then 1 else 0)
     \<and> (\<not> dict_contains (get_agent_kpis m) a \<longrightarrow> calculate_agent_contribution_ratio m a = Inr 0)"
  by (simp add: calculate_agent_contribution_ratio_def py_truediv_def Let_def)

theorem missing_total_ratio_witness:
  "total_milestones example_metrics_no_total = None
   \<and> calculate_agent_contribution_ratio example_metrics_no_total ''A'' = Inr 1
   \<and> calculate_agent_contribution_ratio example_metrics_no_total ''B'' = Inr 1
   \<and> calculate_agent_contribution_ratio example_metrics_no_total ''C'' = Inr 0
   \<and> \<not> dict_contains (get_agent_kpis example_metrics_no_total) ''Z''
   \<and> calculate_agent_contribution_ratio example_metrics_no_total ''Z'' = Inr 0
   \<and> \<not> (\<exists>t. spec_contribution_ratio (get_agent_kpis example_metrics_no_total) t ''A'' = 1
            \<and> spec_contribution_ratio (get_agent_kpis example_metrics_no_total) t ''B'' = 1)"
proof -
  have t: "total_milestones example_metrics_no_total = None"
    by (simp add: example_metrics_no_total_def)
  have kpis: "get_agent_kpis example_metrics_no_total = [(''A'', 3), (''B'', 1), (''C'', 0)]"
    by (simp add: get_agent_kpis_def example_metrics_no_total_def)
  have absent: "\<not> dict_contains (get_agent_kpis example_metrics_no_total) ''Z''"
    by (simp add: kpis dict_contains_def)
  from missing_total_ratio [OF t, of "''A''"]
  have a: "calculate_agent_contribution_ratio example_metrics_no_total ''A'' = Inr 1"
    by (simp add: kpis dict_get_def py_truediv_def)
  from missing_total_ratio [OF t, of "''B''"]
  have b: "calculate_agent_contribution_ratio example_metrics_no_total ''B'' = Inr 1"
    by (simp add: kpis dict_get_def py_truediv_def)
  from missing_total_ratio [OF t, of "''C''"]
  have c: "calculate_agent_contribution_ratio example_metrics_no_total ''C'' = Inr 0"
    by (simp add: kpis dict_get_def py_truediv_def)
  from missing_total_ratio [OF t, of "''Z''"] absent
  have z: "calculate_agent_contribution_ratio example_metrics_no_total ''Z'' = Inr 0"
    by blast
  have no_total: "\<not> (\<exists>t. spec_contribution_ratio (get_agent_kpis example_metrics_no_total) t ''A'' = 1
            \<and> spec_contribution_ratio (get_agent_kpis example_metrics_no_total) t ''B'' = 1)"
    by (auto simp: kpis spec_contribution_ratio_def dict_get_def split: if_splits)
  from t a b c absent z no_total show ?thesis
    by (intro conjI)
qed





text \<open>
  Claim C2. Every reward in the mapping returned by \<open>calculate_agent_rewards\<close> lies in the
  closed interval from \<open>0.0\<close> to \<open>1.0\<close>, for every roster and every snapshot, whatever the
  scores and milestone counts are: for a provider as \<open>__init__\<close> leaves it, and for any
  later call, since a store whose values lie in the interval is returned as one.
\<close>

theorem rewards_in_unit_interval:
  "(\<exists>rw p'. calculate_agent_rewards (init_provider t profiles m) = Inr (rw, p')
       \<and> (\<forall>a v. rw a = Some v \<longrightarrow> 0 \<le> v \<and> v \<le> 1))
   \<and> (rewards_in_range (agent_rewards p) \<longrightarrow>
        (\<exists>rw p'. calculate_agent_rewards p = Inr (rw, p')
           \<and> (\<forall>a v. rw a = Some v \<longrightarrow> 0 \<le> v \<and> v \<le> 1)
           \<and> rewards_in_range (agent_rewards p')))"
proof -
  have step: "\<exists>rw p'. calculate_agent_rewards q = Inr (rw, p')
           \<and> (\<forall>a v. rw a = Some v \<longrightarrow> 0 \<le> v \<and> v \<le> 1)
           \<and> rewards_in_range (agent_rewards p')" if "rewards_in_range (agent_rewards q)" for q
  proof -
    from that have "rewards_in_range (updated_store q)"
      by (rule updated_store_in_range)
    then show ?thesis
      by (simp add: calculate_agent_rewards_value) (simp add: rewards_in_range_def)
  qed
  have "\<exists>rw p'. calculate_agent_rewards (init_provider t profiles m) = Inr (rw, p')
       \<and> (\<forall>a v. rw a = Some v \<longrightarrow> 0 \<le> v \<and> v \<le> 1)"
    using step [OF init_rewards_in_range, of t profiles m] by fast
  moreover have "rewards_in_range (agent_rewards p) \<longrightarrow>
        (\<exists>rw p'. calculate_agent_rewards p = Inr (rw, p')
           \<and> (\<forall>a v. rw a = Some v \<longrightarrow> 0 \<le> v \<and> v \<le> 1)
           \<and> rewards_in_range (agent_rewards p'))"
    using step [of p] by (rule impI)
  ultimately show ?thesis
    by (rule conjI)
qed

theorem rewards_in_unit_interval_witness:
  "\<exists>rw p'. calculate_agent_rewards (init_provider ''task'' example_profiles example_metrics_extreme)
       = Inr (rw, p')
     \<and> rw ''A'' = Some 1 \<and> rw ''B'' = Some 0 \<and> rw ''Z'' = None"
proof -
  let ?p = "init_provider ''task'' example_profiles example_metrics_extreme"
  have "rewards_in_range (agent_rewards ?p)"
    by (rule init_rewards_in_range)
  with rewards_in_unit_interval [of "''task''" example_profiles example_metrics_extreme ?p]
  have "\<exists>rw p'. calculate_agent_rewards ?p = Inr (rw, p')
       \<and> (\<forall>a v. rw a = Some v \<longrightarrow> 0 \<le> v \<and> v \<le> 1)
       \<and> rewards_in_range (agent_rewards p')"
    by (simp only:)
  then obtain rw p' where r: "calculate_agent_rewards ?p = Inr (rw, p')"
    by fast
  then have rw: "rw = updated_store ?p"
    by (simp add: calculate_agent_rewards_value)
  have a: "updated_store ?p ''A'' = Some 1"
    by (simp add: updated_store_def init_provider_def example_profiles_def
        example_metrics_extreme_def spec_reward_def normalized_def score_normalize_factor_def
        spec_latest_raw_def get_planning_scores_def get_communication_scores_def
        ratio_value_def effective_total_def spec_contribution_ratio_def get_agent_kpis_def
        dict_get_def)
  have b: "updated_store ?p ''B'' = Some 0"
    by (simp add: updated_store_def init_provider_def example_profiles_def
        example_metrics_extreme_def spec_reward_def normalized_def score_normalize_factor_def
        spec_latest_raw_def get_planning_scores_def get_communication_scores_def
        ratio_value_def effective_total_def spec_contribution_ratio_def get_agent_kpis_def
        dict_get_def)
  have z: "updated_store ?p ''Z'' = None"
    by (simp add: updated_store_def init_provider_def example_profiles_def)
  from r a b z show ?thesis
    unfolding rw by (intro exI [of _ "updated_store ?p"] exI [of _ p']) simp
qed



text \<open>
  Claim C8. A second call of \<open>calculate_agent_rewards\<close>, on the provider the first call
  leaves behind, returns the same mapping and leaves the provider as it is; the ranking
  computed after the first call, and after the second, is the ranking computed before.
\<close>

theorem rewards_idempotent:
  "\<exists>rw p1 ranking.
     calculate_agent_rewards p = Inr (rw, p1)
     \<and> sorted_agent_contribution p1 = Inr ranking
     \<and> calculate_agent_rewards p1 = Inr (rw, p1)
     \<and> sorted_agent_contribution p = Inr ranking"
proof -
  let ?p1 = "p\<lparr>agent_rewards := updated_store p\<rparr>"
  have first: "calculate_agent_rewards p = Inr (updated_store p, ?p1)"
    by (rule calculate_agent_rewards_value)
  have second: "calculate_agent_rewards ?p1 = Inr (updated_store p, ?p1)"
    by (simp add: calculate_agent_rewards_value [of ?p1] updated_store_twice)
  obtain ranking where rk: "sorted_agent_contribution p = Inr ranking"
    using sorted_agent_contribution_total by blast
  have "sorted_agent_contribution ?p1 = sorted_agent_contribution p"
    by (simp add: sorted_agent_contribution_def)
  with first second rk show ?thesis
    by (intro exI [of _ "updated_store p"] exI [of _ ?p1] exI [of _ ranking]) simp
qed

theorem rewards_idempotent_witness:
  "\<exists>rw p1. calculate_agent_rewards (init_provider ''task'' example_profiles example_metrics)
        = Inr (rw, p1)
     \<and> calculate_agent_rewards p1 = Inr (rw, p1)
     \<and> sorted_agent_contribution p1 = Inr [(''A'', 3 / 4), (''B'', 1 / 4)]
     \<and> sorted_agent_contribution (init_provider ''task'' example_profiles example_metrics)
        = Inr [(''A'', 3 / 4), (''B'', 1 / 4)]"
proof -
  let ?p = "init_provider ''task'' example_profiles example_metrics"
  have rk: "sorted_agent_contribution ?p = Inr [(''A'', 3 / 4), (''B'', 1 / 4)]"
    by (simp add: sorted_agent_contribution_def init_provider_def example_metrics_def
        get_agent_kpis_def contribution_ratio_value ratio_value_def effective_total_def
        spec_contribution_ratio_def dict_get_def dict_set_def dict_contains_def
        py_sorted_reverse_def)
  from rewards_idempotent [of ?p] obtain rw p1 ranking where
    "calculate_agent_rewards ?p = Inr (rw, p1)" and
    "sorted_agent_contribution p1 = Inr ranking" and
    "calculate_agent_rewards p1 = Inr (rw, p1)" and
    "sorted_agent_contribution ?p = Inr ranking"
    by fast
  with rk show ?thesis
    by (intro exI [of _ rw] exI [of _ p1]) simp
qed

text \<open>Claim C6 as stated fails on an empty roster with a non-empty \<open>agent_kpis\<close>: the ranking
  is not empty.\<close>

theorem empty_roster_ranking_counterexample:
  "agent_profiles (init_provider ''task'' [] example_metrics) = []
   \<and> sorted_agent_contribution (init_provider ''task'' [] example_metrics)
       = Inr [(''A'', 3 / 4), (''B'', 1 / 4)]"
  by (simp add: sorted_agent_contribution_def init_provider_def example_metrics_def
      get_agent_kpis_def contribution_ratio_value ratio_value_def effective_total_def
      spec_contribution_ratio_def dict_get_def dict_set_def dict_contains_def
      py_sorted_reverse_def)

text \<open>
  Claim C6, as the code has it. With an empty roster, on a provider whose store holds
  roster agents only (as \<open>__init__\<close> leaves it), \<open>calculate_agent_rewards\<close> returns the empty
  mapping and changes nothing, and no operation raises. The ranking does not depend on the
  roster: it is empty exactly when \<open>agent_kpis\<close> has no entry.
\<close>

theorem empty_roster:
  assumes "agent_profiles p = []" and "store_within_roster p"
  shows "calculate_agent_rewards p = Inr (Map.empty, p)
     \<and> (\<exists>ranking. sorted_agent_contribution p = Inr ranking
          \<and> (ranking = [] \<longleftrightarrow> get_agent_kpis (evaluator_metrics p) = []))"
proof -
  from assms have "dom (agent_rewards p) = {}"
    by (simp add: store_within_roster_def)
  then have empty: "agent_rewards p = Map.empty"
    by simp
  with assms(1) have "updated_store p = Map.empty"
    by (simp add: updated_store_def)
  moreover from empty have "p\<lparr>agent_rewards := Map.empty\<rparr> = p"
    by simp
  ultimately have rewards: "calculate_agent_rewards p = Inr (Map.empty, p)"
    by (simp add: calculate_agent_rewards_value)
  obtain items where items: "contribution_dict (evaluator_metrics p)
      (map fst (get_agent_kpis (evaluator_metrics p))) [] = Inr items"
    and "items = [] \<longleftrightarrow> map fst (get_agent_kpis (evaluator_metrics p)) = [] \<and> ([]::(string \<times> real) list) = []"
    using contribution_dict_total [of "evaluator_metrics p" "map fst (get_agent_kpis (evaluator_metrics p))" "[]"]
    by fast
  then have "sorted_agent_contribution p = Inr (py_sorted_reverse snd items)"
    and "py_sorted_reverse snd items = [] \<longleftrightarrow> get_agent_kpis (evaluator_metrics p) = []"
    by (simp_all add: sorted_agent_contribution_def py_sorted_reverse_Nil)
  with rewards show ?thesis
    by simp
qed

theorem empty_roster_witness:
  "agent_profiles (init_provider ''task'' [] example_metrics) = []
   \<and> store_within_roster (init_provider ''task'' [] example_metrics)
   \<and> calculate_agent_rewards (init_provider ''task'' [] example_metrics)
       = Inr (Map.empty, init_provider ''task'' [] example_metrics)
   \<and> get_agent_kpis example_metrics \<noteq> []
   \<and> sorted_agent_contribution (init_provider ''task'' [] example_metrics) \<noteq> Inr []"
proof -
  let ?p = "init_provider ''task'' [] example_metrics"
  have a: "agent_profiles ?p = []"
    by (simp add: init_provider_def)
  have b: "store_within_roster ?p"
    by (rule init_store_within_roster)
  have c: "get_agent_kpis example_metrics \<noteq> []"
    by (simp add: get_agent_kpis_def example_metrics_def)
  have "evaluator_metrics ?p = example_metrics"
    by (simp add: init_provider_def)
  with empty_roster [OF a b] a b c show ?thesis
    by auto
qed

text \<open>Claim C7 as stated fails on a total of \<open>-4\<close>: a ratio, the rewards and the ranking are
  returned, not an error.\<close>

theorem negative_total_counterexample:
  "total_milestones example_metrics_negative_total = Some (- 4)
   \<and> calculate_agent_contribution_ratio example_metrics_negative_total ''A'' = Inr 0
   \<and> \<not> isl (calculate_agent_rewards
         (init_provider ''task'' example_profiles example_metrics_negative_total))
   \<and> \<not> isl (sorted_agent_contribution
         (init_provider ''task'' example_profiles example_metrics_negative_total))"
  by (simp add: calculate_agent_rewards_value contribution_ratio_value ratio_value_def
      effective_total_def spec_contribution_ratio_def example_metrics_negative_total_def
      sorted_agent_contribution_def init_provider_def get_agent_kpis_def)

text \<open>
  Claim C7, as the code has it. A negative \<open>total_milestones\<close> raises no fault: the guard
  \<open>total_milestones > 0\<close> fails, the contribution ratio of every agent is \<open>0.0\<close>, and the reward
  of every roster agent is the clamped weighted sum of the two team scores alone.
\<close>

theorem negative_total_silent:
  assumes "total_milestones (evaluator_metrics p) = Some t" and "t < 0"
  shows "calculate_agent_contribution_ratio (evaluator_metrics p) a = Inr 0
     \<and> (\<exists>lp lc rw p'.
          get_latest_scores (evaluator_metrics p) = Inr (lp, lc)
          \<and> calculate_agent_rewards p = Inr (rw, p')
          \<and> (\<forall>b \<in> set (map fst (agent_profiles p)).
               rw b = Some (max 0 (min 1 (4 / 10 * normalized lp + 3 / 10 * normalized lc)))))"
proof -
  from assms have zero: "ratio_value (evaluator_metrics p) b = 0" for b
    by (simp add: ratio_value_def effective_total_def spec_contribution_ratio_def)
  then have ratio: "calculate_agent_contribution_ratio (evaluator_metrics p) a = Inr 0"
    by (simp add: contribution_ratio_value)
  have rewards: "\<exists>lp lc rw p'.
          get_latest_scores (evaluator_metrics p) = Inr (lp, lc)
          \<and> calculate_agent_rewards p = Inr (rw, p')
          \<and> (\<forall>b \<in> set (map fst (agent_profiles p)).
               rw b = Some (max 0 (min 1 (4 / 10 * normalized lp + 3 / 10 * normalized lc))))"
    by (simp add: latest_scores_value calculate_agent_rewards_value updated_store_def zero
        spec_reward_def)
  with ratio show ?thesis
    by (rule conjI)
qed

theorem negative_total_silent_witness:
  "total_milestones example_metrics_negative_total = Some (- 4) \<and> (- 4 :: int) < 0
   \<and> calculate_agent_contribution_ratio example_metrics_negative_total ''A'' = Inr 0
   \<and> (\<exists>rw p'. calculate_agent_rewards
          (init_provider ''task'' example_profiles example_metrics_negative_total) = Inr (rw, p')
        \<and> rw ''A'' = Some (32 / 100) \<and> rw ''B'' = Some (32 / 100))"
proof -
  let ?p = "init_provider ''task'' example_profiles example_metrics_negative_total"
  have m: "evaluator_metrics ?p = example_metrics_negative_total"
    by (simp add: init_provider_def)
  have t: "total_milestones (evaluator_metrics ?p) = Some (- 4)"
    by (simp add: init_provider_def example_metrics_negative_total_def)
  have neg: "(- 4 :: int) < 0"
    by simp
  note fact = negative_total_silent [OF t neg, of "''A''"]
  from fact have ratio: "calculate_agent_contribution_ratio example_metrics_negative_total ''A'' = Inr 0"
    by (simp add: m)
  from fact obtain lp lc rw p' where
    scores: "get_latest_scores (evaluator_metrics ?p) = Inr (lp, lc)" and
    result: "calculate_agent_rewards ?p = Inr (rw, p')" and
    entries: "\<forall>b \<in> set (map fst (agent_profiles ?p)).
        rw b = Some (max 0 (min 1 (4 / 10 * normalized lp + 3 / 10 * normalized lc)))"
    by fast
  have "get_latest_scores example_metrics_negative_total = Inr (4, 0)"
    by (simp add: latest_scores_value example_metrics_negative_total_def spec_latest_raw_def
        get_planning_scores_def get_communication_scores_def)
  with scores m have "lp = 4" and "lc = 0"
    by simp_all
  moreover have "''A'' \<in> set (map fst (agent_profiles ?p))"
    and "''B'' \<in> set (map fst (agent_profiles ?p))"
    by (simp_all add: init_provider_def example_profiles_def)
  ultimately have "rw ''A'' = Some (32 / 100)" and "rw ''B'' = Some (32 / 100)"
    using entries by (auto simp: normalized_def score_normalize_factor_def)
  with result ratio t neg m show ?thesis
    by (intro conjI exI [of _ rw] exI [of _ p']) simp_all
qed



end
